theory Spec2Isabelle
  imports Complex_Main "HOL-Library.Word" "HOL-Library.Log_Nat"
begin

unbundle bit_operations_syntax

section \<open>Hamlib front end (common/rig.c): data model\<close>

text \<open>
  The file \<^verbatim>\<open>common/rig.c\<close> is the generic front end of the library: the table of
  error messages, the life cycle of a \<^verbatim>\<open>RIG\<close> (\<^verbatim>\<open>rig_init\<close>, \<^verbatim>\<open>rig_open\<close>,
  \<^verbatim>\<open>rig_close\<close>, \<^verbatim>\<open>rig_cleanup\<close>), the wrappers that forward a request to the
  backend of the rig's model, \<^verbatim>\<open>rig_probe\<close>, \<^verbatim>\<open>rig_has_func\<close> and \<^verbatim>\<open>rig_get_caps\<close>.

  Conventions of the embedding.
  \<^item> A pointer argument is an \<open>option\<close>: \<open>None\<close> is \<^verbatim>\<open>NULL\<close>, \<open>Some v\<close> points to an
    object holding \<open>v\<close>. A function that writes through a pointer returns the new
    content next to its C result.
  \<^item> Undefined behaviour of the C program (a read through \<^verbatim>\<open>NULL\<close>, an index outside
    an array, the conversion of a \<^verbatim>\<open>double\<close> to an integer type that cannot hold it)
    is the left summand of the result, a \<open>fault\<close>.
  \<^item> \<^verbatim>\<open>int\<close>, \<^verbatim>\<open>rig_model_t\<close>, \<^verbatim>\<open>rmode_t\<close> and \<^verbatim>\<open>vfo_t\<close> values are HOL integers:
    the front end does no arithmetic on them.
  \<^item> \<^verbatim>\<open>unsigned long\<close> is 64 bits wide and \<^verbatim>\<open>int\<close> 32 (the LP64 data model): the
    conversion of an \<^verbatim>\<open>unsigned long\<close> to \<^verbatim>\<open>int\<close> keeps the low 32 bits, read as two's
    complement. With an \<^verbatim>\<open>unsigned long\<close> of 32 bits the masks have no upper half,
    and the conversion is the same.
\<close>

datatype fault = NullDereference | OutOfBounds | UndefinedConversion

type_synonym rig_model_t = int
type_synonym rmode_t = int
type_synonym vfo_t = int

text \<open>
  The header \<^verbatim>\<open>rig.h\<close>, which declares the types, is not part of the sources. The
  compensation factor \<^verbatim>\<open>vfo_comp\<close> is a \<^verbatim>\<open>double\<close> (it is assigned and compared with
  \<^verbatim>\<open>0.0\<close>), and \<^verbatim>\<open>freq_t\<close> is Hamlib's \<^verbatim>\<open>long long\<close>, a signed integer of 64 bits
  (the product is cast back to it): a word, read with \<open>sint\<close>.
\<close>

type_synonym freq_t = "64 word"

text \<open>
  A \<^verbatim>\<open>double\<close> is a finite number, represented by the rational number it denotes
  (\<^verbatim>\<open>0.0\<close> and \<^verbatim>\<open>-0.0\<close> are both \<open>Finite 0\<close>: the front end cannot tell them apart), an
  infinity (\<open>Infinity True\<close> is the negative one) or not a number.
\<close>

datatype double = Finite rat | Infinity bool | NaN

datatype rig_port_e = RIG_PORT_SERIAL | RIG_PORT_NETWORK | RIG_PORT_OTHER

subsection \<open>Result codes\<close>

text \<open>
  Modelled from the spec: the header \<^verbatim>\<open>rig.h\<close> that declares the result codes is not
  part of the sources. The codes are numbered in the order of the error taxonomy
  (section 7 of the specification), which is the order of \<^verbatim>\<open>rigerror_table\<close>:
  Ok, InvalidParameter, InvalidConfiguration, MemoryShortage, NotImplemented, Timeout,
  IOError, InternalError, ProtocolError, Rejected, Truncated. A function reports the
  failure \<open>E\<close> by returning \<open>- E\<close>.
\<close>

definition RIG_OK :: int where "RIG_OK = 0"
definition RIG_EINVAL :: int where "RIG_EINVAL = 1"
definition RIG_ECONF :: int where "RIG_ECONF = 2"
definition RIG_ENOMEM :: int where "RIG_ENOMEM = 3"
definition RIG_ENIMPL :: int where "RIG_ENIMPL = 4"
definition RIG_ETIMEOUT :: int where "RIG_ETIMEOUT = 5"
definition RIG_EIO :: int where "RIG_EIO = 6"
definition RIG_EINTERNAL :: int where "RIG_EINTERNAL = 7"
definition RIG_EPROTO :: int where "RIG_EPROTO = 8"
definition RIG_ERJCTED :: int where "RIG_ERJCTED = 9"
definition RIG_ETRUNC :: int where "RIG_ETRUNC = 10"

text \<open>
  \<^verbatim>\<open>FILPATHLEN\<close>, the size of the path buffers, is declared in \<^verbatim>\<open>rig.h\<close> as well.
  It is the parameter \<open>filpathlen\<close> of the functions that copy a path.
\<close>

definition DEFAULT_SERIAL_PORT :: string where
  "DEFAULT_SERIAL_PORT = ''/dev/ttyS0''"

subsection \<open>The device state, the capabilities and the handle\<close>

text \<open>
  \<^verbatim>\<open>struct rig_state\<close>, with the fields that \<^verbatim>\<open>rig.c\<close> reads or writes, and \<open>priv\<close>,
  the private data of the backend.
\<close>

record rig_state =
  port_type :: rig_port_e
  rig_path :: string
  serial_rate :: nat
  serial_data_bits :: int
  serial_stop_bits :: int
  serial_parity :: int
  serial_handshake :: int
  timeout :: int
  retry :: int
  ptt_type :: int
  vfo_comp :: double
  fd :: int
  priv :: "nat option"

text \<open>
  A backend function receives the \<^verbatim>\<open>RIG\<close> and returns an \<^verbatim>\<open>int\<close>. The capabilities
  behind \<^verbatim>\<open>rig->caps\<close> are constant, so what a backend function can change is the
  state block: it is a function from the state to its result and the new state.
  A getter also fills the object its second argument points to.
\<close>

type_synonym backend_fn = "rig_state \<Rightarrow> int \<times> rig_state"
type_synonym 'a backend_set = "rig_state \<Rightarrow> 'a \<Rightarrow> int \<times> rig_state"
type_synonym 'a backend_get = "rig_state \<Rightarrow> 'a \<Rightarrow> int \<times> rig_state \<times> 'a"

text \<open>
  \<^verbatim>\<open>struct rig_caps\<close>. The members \<^verbatim>\<open>rig_init\<close>, \<^verbatim>\<open>rig_open\<close>, \<^verbatim>\<open>rig_close\<close>,
  \<^verbatim>\<open>rig_cleanup\<close> and \<^verbatim>\<open>rig_probe\<close> carry the suffix \<open>_fn\<close> here, to keep them
  apart from the functions of the same names; the members shared with the state carry
  the prefix \<open>caps_\<close>. A function pointer that is \<^verbatim>\<open>NULL\<close> is \<open>None\<close>.
\<close>

record rig_caps =
  rig_model :: rig_model_t
  model_name :: string
  serial_rate_min :: nat
  serial_rate_max :: nat
  caps_serial_data_bits :: int
  caps_serial_stop_bits :: int
  caps_serial_parity :: int
  caps_serial_handshake :: int
  caps_timeout :: int
  caps_retry :: int
  caps_ptt_type :: int
  has_func :: "64 word"
  rig_init_fn :: "backend_fn option"
  rig_open_fn :: "backend_fn option"
  rig_close_fn :: "backend_fn option"
  rig_cleanup_fn :: "backend_fn option"
  rig_probe_fn :: "backend_fn option"
  set_freq :: "freq_t backend_set option"
  get_freq :: "freq_t backend_get option"
  set_mode :: "rmode_t backend_set option"
  get_mode :: "rmode_t backend_get option"
  set_vfo :: "vfo_t backend_set option"
  get_vfo :: "vfo_t backend_get option"

record RIG =
  caps :: "rig_caps option"
  state :: rig_state

text \<open>
  What the front end holds of the process: the \<^verbatim>\<open>RIG\<close> blocks that \<^verbatim>\<open>calloc\<close> can
  still hand out, the blocks handed out and not yet freed, and the file descriptors
  that are open.
\<close>

record env =
  mem_left :: nat
  live_rigs :: nat
  open_fds :: "int list"

definition calloc_rig :: "env \<Rightarrow> bool \<times> env" where
  "calloc_rig e =
     (if mem_left e = 0 then (False, e)
      else (True, e\<lparr>mem_left := mem_left e - 1, live_rigs := live_rigs e + 1\<rparr>))"

definition free_rig :: "env \<Rightarrow> env" where
  "free_rig e = e\<lparr>mem_left := mem_left e + 1, live_rigs := live_rigs e - 1\<rparr>"

definition close_fd :: "int \<Rightarrow> env \<Rightarrow> env" where
  "close_fd d e = e\<lparr>open_fds := removeAll d (open_fds e)\<rparr>"

text \<open>
  \<^verbatim>\<open>serial_open\<close> belongs to the transport layer (\<^verbatim>\<open>serial.c\<close>), which is not part of
  the sources: it is a parameter of the functions that call it. It receives the state
  block, may open a descriptor and store it in the state, and returns its status.
\<close>

type_synonym transport = "rig_state \<Rightarrow> env \<Rightarrow> int \<times> rig_state \<times> env"

text \<open>
  The block that \<^verbatim>\<open>calloc\<close> returns: every member is zero. (\<^verbatim>\<open>rig_init\<close> sets the
  port type before anything reads it.)
\<close>

definition zeroed_state :: rig_state where
  "zeroed_state =
     \<lparr>port_type = RIG_PORT_SERIAL, rig_path = [], serial_rate = 0, serial_data_bits = 0,
      serial_stop_bits = 0, serial_parity = 0, serial_handshake = 0, timeout = 0,
      retry = 0, ptt_type = 0, vfo_comp = Finite 0, fd = 0, priv = None\<rparr>"

text \<open>
  \<^verbatim>\<open>strncpy (dst, src, n)\<close> into a zeroed buffer: the string that the buffer holds
  afterwards.
\<close>

definition strncpy :: "string \<Rightarrow> nat \<Rightarrow> string" where
  "strncpy src n = take n src"

subsection \<open>Double precision arithmetic\<close>

text \<open>
  Rounding of a rational number to the nearest floating-point number with a significand
  of \<open>p\<close> bits whose last place has an exponent of at least \<open>emin\<close>, ties to even.
  A \<^verbatim>\<open>double\<close> has 53 bits and its smallest last place is \<open>2 ^ - 1074\<close> (below
  \<open>2 ^ - 1022\<close> the numbers are subnormal); a rounded value of magnitude \<open>2 ^ 1024\<close> or
  more overflows to an infinity. \<open>ilog2 x\<close> is the integer \<open>k\<close> with
  \<open>2 ^ k \<le> x < 2 ^ (k + 1)\<close>, for a positive \<open>x\<close>.
\<close>

definition pow2 :: "int \<Rightarrow> rat" where
  "pow2 e = (if 0 \<le> e then 2 ^ nat e else 1 / 2 ^ nat (- e))"

definition round_half_even :: "rat \<Rightarrow> int" where
  "round_half_even x =
     (let f = \<lfloor>x\<rfloor>; r = x - of_int f
      in if r < 1 / 2 then f else if 1 / 2 < r then f + 1
         else if even f then f else f + 1)"

definition ilog2 :: "rat \<Rightarrow> int" where
  "ilog2 x =
     (case quotient_of x of (n, d) \<Rightarrow>
        let k = bitlen n - bitlen d in if pow2 k \<le> x then k else k - 1)"

definition fp_round :: "nat \<Rightarrow> int \<Rightarrow> rat \<Rightarrow> rat" where
  "fp_round p emin x =
     (if x = 0 then 0
      else let e = max (ilog2 \<bar>x\<bar> - (int p - 1)) emin
           in sgn x * of_int (round_half_even (\<bar>x\<bar> / pow2 e)) * pow2 e)"

definition double_of_rat :: "rat \<Rightarrow> double" where
  "double_of_rat x =
     (let y = fp_round 53 (- 1074) x
      in if y \<noteq> 0 \<and> 1024 \<le> ilog2 \<bar>y\<bar> then Infinity (y < 0) else Finite y)"

text \<open>The conversion of the \<^verbatim>\<open>long long\<close> to \<^verbatim>\<open>double\<close>.\<close>

definition double_of_freq :: "freq_t \<Rightarrow> double" where
  "double_of_freq f = double_of_rat (of_int (sint f))"

fun double_mult :: "double \<Rightarrow> double \<Rightarrow> double" where
  "double_mult (Finite a) (Finite b) = double_of_rat (a * b)"
| "double_mult (Finite a) (Infinity t) = (if a = 0 then NaN else Infinity (t \<noteq> (a < 0)))"
| "double_mult (Infinity s) (Finite b) = (if b = 0 then NaN else Infinity (s \<noteq> (b < 0)))"
| "double_mult (Infinity s) (Infinity t) = Infinity (s \<noteq> t)"
| "double_mult NaN b = NaN"
| "double_mult a NaN = NaN"

text \<open>
  The cast \<^verbatim>\<open>(freq_t) x\<close> drops the fraction. It is undefined when the integral part
  is not a value of \<^verbatim>\<open>freq_t\<close>, and for an infinity and for NaN.
\<close>

definition freq_of_double :: "double \<Rightarrow> fault + freq_t" where
  "freq_of_double x =
     (case x of
        Finite q \<Rightarrow>
          let t = (if 0 \<le> q then \<lfloor>q\<rfloor> else - \<lfloor>- q\<rfloor>)
          in if - (2 ^ 63) \<le> t \<and> t < 2 ^ 63 then Inr (word_of_int t)
             else Inl UndefinedConversion
      | Infinity s \<Rightarrow> Inl UndefinedConversion
      | NaN \<Rightarrow> Inl UndefinedConversion)"

section \<open>The functions of rig.c\<close>

subsection \<open>rigerror\<close>

definition rigerror_table :: "string list" where
  "rigerror_table =
     [''Command completed sucessfully'',
      ''Invalid parameter'',
      ''Invalid configuration'',
      ''Memory shortage'',
      ''Feature not implemented'',
      ''Communication timed out'',
      ''IO error'',
      ''Internal Hamlib error'',
      ''Protocol error'',
      ''Command rejected by the rig'',
      ''Command performed, but arg truncated, result not guaranteed'']"

text \<open>
  \<^verbatim>\<open>return rigerror_table[errnum];\<close> The C function does not compare \<open>errnum\<close> with
  the bounds of the table; an index outside the array is undefined behaviour, which
  the model reports as the fault \<open>OutOfBounds\<close>.
\<close>

definition rigerror :: "int \<Rightarrow> fault + string" where
  "rigerror errnum =
     (if 0 \<le> errnum \<and> nat errnum < length rigerror_table
      then Inr (rigerror_table ! nat errnum)
      else Inl OutOfBounds)"

subsection \<open>The registry\<close>

text \<open>
  \<^verbatim>\<open>rig_base\<close> is a \<^verbatim>\<open>NULL\<close>-terminated array of pointers to the capabilities of the
  backends, which live outside \<^verbatim>\<open>rig.c\<close>: it is the list \<open>base\<close>, a parameter. The loop
  \<^verbatim>\<open>for (i=0; rig_base[i]; i++) if (rig_base[i]->rig_model == rig_model) break;\<close>
  of \<^verbatim>\<open>rig_init\<close> and \<^verbatim>\<open>rig_get_caps\<close> leaves \<^verbatim>\<open>rig_base[i]\<close> at the first entry of
  that model, or at the terminator.
\<close>

fun rig_base_scan :: "rig_caps list \<Rightarrow> rig_model_t \<Rightarrow> rig_caps option" where
  "rig_base_scan [] m = None"
| "rig_base_scan (c # cs) m = (if rig_model c = m then Some c else rig_base_scan cs m)"

subsection \<open>rig_init\<close>

definition rig_init ::
  "nat \<Rightarrow> rig_caps list \<Rightarrow> rig_model_t \<Rightarrow> env \<Rightarrow> RIG option \<times> env" where
  "rig_init filpathlen base m e =
     (case rig_base_scan base m of
        None \<Rightarrow> (None, e)
      | Some c \<Rightarrow>
          (case calloc_rig e of
             (False, e') \<Rightarrow> (None, e')
           | (True, e') \<Rightarrow>
               let st = zeroed_state
                     \<lparr>port_type := RIG_PORT_SERIAL,
                      rig_path := strncpy DEFAULT_SERIAL_PORT filpathlen,
                      serial_rate := serial_rate_max c,
                      serial_data_bits := caps_serial_data_bits c,
                      serial_stop_bits := caps_serial_stop_bits c,
                      serial_parity := caps_serial_parity c,
                      serial_handshake := caps_serial_handshake c,
                      timeout := caps_timeout c,
                      retry := caps_retry c,
                      ptt_type := caps_ptt_type c,
                      vfo_comp := Finite 0\<rparr>;
                   st' = (case rig_init_fn c of None \<Rightarrow> st | Some f \<Rightarrow> snd (f st))
               in (Some \<lparr>caps = Some c, state = st'\<rparr>, e')))"

subsection \<open>rig_open\<close>

definition rig_open ::
  "transport \<Rightarrow> RIG option \<Rightarrow> env \<Rightarrow> fault + (int \<times> RIG option \<times> env)" where
  "rig_open serial_open rig e =
     (case rig of
        None \<Rightarrow> Inr (- RIG_EINVAL, None, e)
      | Some r \<Rightarrow>
          (case port_type (state r) of
             RIG_PORT_SERIAL \<Rightarrow>
               (case serial_open (state r) e of
                  (status, st, e') \<Rightarrow>
                    if status \<noteq> 0 then Inr (status, Some (r\<lparr>state := st\<rparr>), e')
                    else
                      (case caps r of
                         None \<Rightarrow> Inl NullDereference
                       | Some c \<Rightarrow>
                           (case rig_open_fn c of
                              None \<Rightarrow> Inr (RIG_OK, Some (r\<lparr>state := st\<rparr>), e')
                            | Some f \<Rightarrow> Inr (RIG_OK, Some (r\<lparr>state := snd (f st)\<rparr>), e'))))
           | RIG_PORT_NETWORK \<Rightarrow> Inr (- RIG_ENIMPL, rig, e)
           | RIG_PORT_OTHER \<Rightarrow> Inr (- RIG_ENIMPL, rig, e)))"

subsection \<open>The wrappers\<close>

text \<open>
  The value of \<^verbatim>\<open>freq\<close> after the statement
  \<^verbatim>\<open>if (rig->state.vfo_comp != 0.0) freq = (freq_t)(rig->state.vfo_comp * freq);\<close>
  of \<^verbatim>\<open>rig_set_freq\<close>: the integer is converted to \<^verbatim>\<open>double\<close>, the product is
  rounded to \<^verbatim>\<open>double\<close>, and the cast drops its fraction, or is undefined.
\<close>

definition compensated_freq :: "rig_state \<Rightarrow> freq_t \<Rightarrow> fault + freq_t" where
  "compensated_freq st freq =
     (if vfo_comp st \<noteq> Finite 0
      then freq_of_double (double_mult (vfo_comp st) (double_of_freq freq))
      else Inr freq)"

text \<open>The statement stands before the test of \<^verbatim>\<open>rig->caps->set_freq\<close>.\<close>

definition rig_set_freq :: "RIG option \<Rightarrow> freq_t \<Rightarrow> fault + (int \<times> RIG option)" where
  "rig_set_freq rig freq =
     (case rig of
        None \<Rightarrow> Inr (- RIG_EINVAL, rig)
      | Some r \<Rightarrow>
          (case caps r of
             None \<Rightarrow> Inr (- RIG_EINVAL, rig)
           | Some c \<Rightarrow>
               (case compensated_freq (state r) freq of
                  Inl flt \<Rightarrow> Inl flt
                | Inr freq' \<Rightarrow>
                    (case set_freq c of
                       None \<Rightarrow> Inr (- RIG_ENIMPL, rig)
                     | Some f \<Rightarrow>
                         (case f (state r) freq' of
                            (status, st) \<Rightarrow> Inr (status, Some (r\<lparr>state := st\<rparr>)))))))"

definition rig_get_freq ::
  "RIG option \<Rightarrow> freq_t option \<Rightarrow> int \<times> RIG option \<times> freq_t option" where
  "rig_get_freq rig freq =
     (case (rig, freq) of
        (Some r, Some v) \<Rightarrow>
          (case caps r of
             None \<Rightarrow> (- RIG_EINVAL, rig, freq)
           | Some c \<Rightarrow>
               (case get_freq c of
                  None \<Rightarrow> (- RIG_ENIMPL, rig, freq)
                | Some f \<Rightarrow>
                    (case f (state r) v of
                       (status, st, v') \<Rightarrow> (status, Some (r\<lparr>state := st\<rparr>), Some v'))))
      | _ \<Rightarrow> (- RIG_EINVAL, rig, freq))"

definition rig_set_mode :: "RIG option \<Rightarrow> rmode_t \<Rightarrow> int \<times> RIG option" where
  "rig_set_mode rig mode =
     (case rig of
        None \<Rightarrow> (- RIG_EINVAL, rig)
      | Some r \<Rightarrow>
          (case caps r of
             None \<Rightarrow> (- RIG_EINVAL, rig)
           | Some c \<Rightarrow>
               (case set_mode c of
                  None \<Rightarrow> (- RIG_ENIMPL, rig)
                | Some f \<Rightarrow>
                    (case f (state r) mode of
                       (status, st) \<Rightarrow> (status, Some (r\<lparr>state := st\<rparr>))))))"

definition rig_get_mode ::
  "RIG option \<Rightarrow> rmode_t option \<Rightarrow> int \<times> RIG option \<times> rmode_t option" where
  "rig_get_mode rig mode =
     (case (rig, mode) of
        (Some r, Some v) \<Rightarrow>
          (case caps r of
             None \<Rightarrow> (- RIG_EINVAL, rig, mode)
           | Some c \<Rightarrow>
               (case get_mode c of
                  None \<Rightarrow> (- RIG_ENIMPL, rig, mode)
                | Some f \<Rightarrow>
                    (case f (state r) v of
                       (status, st, v') \<Rightarrow> (status, Some (r\<lparr>state := st\<rparr>), Some v'))))
      | _ \<Rightarrow> (- RIG_EINVAL, rig, mode))"

definition rig_set_vfo :: "RIG option \<Rightarrow> vfo_t \<Rightarrow> int \<times> RIG option" where
  "rig_set_vfo rig vfo =
     (case rig of
        None \<Rightarrow> (- RIG_EINVAL, rig)
      | Some r \<Rightarrow>
          (case caps r of
             None \<Rightarrow> (- RIG_EINVAL, rig)
           | Some c \<Rightarrow>
               (case set_vfo c of
                  None \<Rightarrow> (- RIG_ENIMPL, rig)
                | Some f \<Rightarrow>
                    (case f (state r) vfo of
                       (status, st) \<Rightarrow> (status, Some (r\<lparr>state := st\<rparr>))))))"

definition rig_get_vfo ::
  "RIG option \<Rightarrow> vfo_t option \<Rightarrow> int \<times> RIG option \<times> vfo_t option" where
  "rig_get_vfo rig vfo =
     (case (rig, vfo) of
        (Some r, Some v) \<Rightarrow>
          (case caps r of
             None \<Rightarrow> (- RIG_EINVAL, rig, vfo)
           | Some c \<Rightarrow>
               (case get_vfo c of
                  None \<Rightarrow> (- RIG_ENIMPL, rig, vfo)
                | Some f \<Rightarrow>
                    (case f (state r) v of
                       (status, st, v') \<Rightarrow> (status, Some (r\<lparr>state := st\<rparr>), Some v'))))
      | _ \<Rightarrow> (- RIG_EINVAL, rig, vfo))"

subsection \<open>rig_close and rig_cleanup\<close>

text \<open>
  Both functions start with the test \<^verbatim>\<open>if (rig == NULL || rig->caps)\<close>, so they go on
  only when \<^verbatim>\<open>rig->caps\<close> is \<^verbatim>\<open>NULL\<close>, and the next statement reads a member through
  that pointer.
\<close>

definition rig_close :: "RIG option \<Rightarrow> env \<Rightarrow> fault + (int \<times> RIG option \<times> env)" where
  "rig_close rig e =
     (case rig of
        None \<Rightarrow> Inr (- RIG_EINVAL, rig, e)
      | Some r \<Rightarrow>
          if caps r \<noteq> None then Inr (- RIG_EINVAL, rig, e)
          else
            (case caps r of
               None \<Rightarrow> Inl NullDereference
             | Some c \<Rightarrow>
                 let st = (case rig_close_fn c of None \<Rightarrow> state r | Some f \<Rightarrow> snd (f (state r)))
                 in if fd st \<noteq> - 1
                    then Inr (RIG_OK, Some (r\<lparr>state := st\<lparr>fd := - 1\<rparr>\<rparr>), close_fd (fd st) e)
                    else Inr (RIG_OK, Some (r\<lparr>state := st\<rparr>), e)))"

text \<open>After \<^verbatim>\<open>free (rig)\<close> the pointer has no target any more.\<close>

definition rig_cleanup :: "RIG option \<Rightarrow> env \<Rightarrow> fault + (int \<times> RIG option \<times> env)" where
  "rig_cleanup rig e =
     (case rig of
        None \<Rightarrow> Inr (- RIG_EINVAL, rig, e)
      | Some r \<Rightarrow>
          if caps r \<noteq> None then Inr (- RIG_EINVAL, rig, e)
          else
            (case caps r of
               None \<Rightarrow> Inl NullDereference
             | Some c \<Rightarrow>
                 let st = (case rig_cleanup_fn c of None \<Rightarrow> state r | Some f \<Rightarrow> snd (f (state r)))
                 in Inr (RIG_OK, None, free_rig e)))"

subsection \<open>rig_probe\<close>

text \<open>
  The loop over \<^verbatim>\<open>rig_base\<close>: \<open>cs\<close> is the part of the array not yet visited, \<open>base\<close>
  the whole array, which \<^verbatim>\<open>rig_init\<close> searches. \<^verbatim>\<open>strncpy\<close> writes through \<^verbatim>\<open>rig\<close>
  before \<^verbatim>\<open>rig\<close> is compared with \<^verbatim>\<open>NULL\<close>. The condition
  \<^verbatim>\<open>rig && rig_base[i]->rig_probe(rig) == 0\<close> calls the probe routine only for a
  \<^verbatim>\<open>rig\<close> that is not \<^verbatim>\<open>NULL\<close>. The results of \<^verbatim>\<open>rig_open\<close>, \<^verbatim>\<open>rig_close\<close> and
  \<^verbatim>\<open>rig_cleanup\<close> are not looked at.
\<close>

fun rig_probe_from ::
  "nat \<Rightarrow> rig_caps list \<Rightarrow> transport \<Rightarrow> string \<Rightarrow> rig_caps list \<Rightarrow> env \<Rightarrow>
   fault + (RIG option \<times> env)"
where
  "rig_probe_from filpathlen base serial_open port_path [] e = Inr (None, e)"
| "rig_probe_from filpathlen base serial_open port_path (c # cs) e =
     (case rig_probe_fn c of
        None \<Rightarrow> rig_probe_from filpathlen base serial_open port_path cs e
      | Some probe \<Rightarrow>
          (case rig_init filpathlen base (rig_model c) e of
             (None, e1) \<Rightarrow> Inl NullDereference
           | (Some r, e1) \<Rightarrow>
               (case rig_open serial_open
                       (Some (r\<lparr>state := (state r)\<lparr>rig_path := strncpy port_path filpathlen\<rparr>\<rparr>)) e1 of
                  Inl flt \<Rightarrow> Inl flt
                | Inr (_, rig2, e2) \<Rightarrow>
                    (case (case rig2 of
                             None \<Rightarrow> (False, rig2)
                           | Some r2 \<Rightarrow>
                               (case probe (state r2) of
                                  (status, st) \<Rightarrow> (status = 0, Some (r2\<lparr>state := st\<rparr>)))) of
                       (True, rig3) \<Rightarrow> Inr (rig3, e2)
                     | (False, rig3) \<Rightarrow>
                         (case rig_close rig3 e2 of
                            Inl flt \<Rightarrow> Inl flt
                          | Inr (_, rig4, e3) \<Rightarrow>
                              (case rig_cleanup rig4 e3 of
                                 Inl flt \<Rightarrow> Inl flt
                               | Inr (_, _, e4) \<Rightarrow>
                                   rig_probe_from filpathlen base serial_open port_path cs
                                     e4))))))"

definition rig_probe ::
  "nat \<Rightarrow> rig_caps list \<Rightarrow> transport \<Rightarrow> string \<Rightarrow> env \<Rightarrow> fault + (RIG option \<times> env)"
where
  "rig_probe filpathlen base serial_open port_path e =
     rig_probe_from filpathlen base serial_open port_path base e"

subsection \<open>rig_has_func\<close>

text \<open>
  \<^verbatim>\<open>return (rig->caps->has_func & func);\<close> The \<^verbatim>\<open>unsigned long\<close> is converted to the
  \<^verbatim>\<open>int\<close> that the function returns: \<open>ucast\<close> keeps the low 32 bits.
\<close>

definition rig_has_func :: "RIG option \<Rightarrow> 64 word \<Rightarrow> int" where
  "rig_has_func rig func =
     (case rig of
        None \<Rightarrow> - 1
      | Some r \<Rightarrow>
          (case caps r of
             None \<Rightarrow> - 1
           | Some c \<Rightarrow> sint (ucast (has_func c AND func) :: 32 word)))"

subsection \<open>rig_get_caps\<close>

text \<open>
  A call of \<^verbatim>\<open>printf\<close> with one argument is recorded as the format and the argument.
  \<^verbatim>\<open>rig_get_caps\<close> returns the capabilities it found and what it printed.
\<close>

datatype printf_arg = ArgString string | ArgUnsigned nat

type_synonym printf_call = "string \<times> printf_arg"

definition rig_get_caps :: "rig_caps list \<Rightarrow> rig_model_t \<Rightarrow> rig_caps option \<times> printf_call list" where
  "rig_get_caps base m =
     (case rig_base_scan base m of
        None \<Rightarrow> (None, [])
      | Some rc \<Rightarrow>
          (Some rc,
           [(''rig = %s \<newline>'', ArgString (model_name rc)),
            (''rig serial_rate_min = = %u \<newline>'', ArgUnsigned (serial_rate_min rc)),
            (''rig serial_rate_max = = %u \<newline>'', ArgUnsigned (serial_rate_max rc))]))"

section \<open>Sample inputs\<close>

text \<open>
  A registry with one backend, a transport that opens the port and a process with
  memory for four handles, to run the functions on, with path buffers of 100
  characters. The backend has a probe routine
  that finds no rig, a frequency setter that keeps the frequency it was given in its
  private data, a frequency getter that succeeds, a mode setter and a VFO getter that
  fail, and no mode getter and no VFO setter.
\<close>

definition sample_probe :: backend_fn where
  "sample_probe st = (- RIG_ETIMEOUT, st)"

definition sample_set_freq :: "freq_t backend_set" where
  "sample_set_freq st f = (RIG_OK, st\<lparr>priv := Some (unat f)\<rparr>)"

definition sample_get_freq :: "freq_t backend_get" where
  "sample_get_freq st v = (RIG_OK, st, 14250000)"

definition sample_set_mode :: "rmode_t backend_set" where
  "sample_set_mode st m = (- RIG_ERJCTED, st)"

definition sample_get_vfo :: "vfo_t backend_get" where
  "sample_get_vfo st v = (- RIG_EPROTO, st, v)"

definition sample_caps :: rig_caps where
  "sample_caps =
     \<lparr>rig_model = 1, model_name = ''Sample'', serial_rate_min = 4800,
      serial_rate_max = 19200, caps_serial_data_bits = 8, caps_serial_stop_bits = 1,
      caps_serial_parity = 0, caps_serial_handshake = 0, caps_timeout = 200,
      caps_retry = 3, caps_ptt_type = 0, has_func = 5,
      rig_init_fn = None, rig_open_fn = None, rig_close_fn = None,
      rig_cleanup_fn = None,
      rig_probe_fn = Some sample_probe,
      set_freq = Some sample_set_freq,
      get_freq = Some sample_get_freq,
      set_mode = Some sample_set_mode,
      get_mode = None,
      set_vfo = None,
      get_vfo = Some sample_get_vfo\<rparr>"

definition sample_env :: env where
  "sample_env = \<lparr>mem_left = 4, live_rigs = 0, open_fds = []\<rparr>"

text \<open>The transport opens the port on the lowest descriptor above those in use.\<close>

definition sample_serial_open :: transport where
  "sample_serial_open st e =
     (let d = 3 + int (length (open_fds e))
      in (RIG_OK, st\<lparr>fd := d\<rparr>, e\<lparr>open_fds := d # open_fds e\<rparr>))"

text \<open>The state of a handle that \<^verbatim>\<open>rig_init\<close> has made for the sample backend.\<close>

definition sample_state :: rig_state where
  "sample_state =
     \<lparr>port_type = RIG_PORT_SERIAL, rig_path = ''/dev/ttyS0'', serial_rate = 19200,
      serial_data_bits = 8, serial_stop_bits = 1, serial_parity = 0,
      serial_handshake = 0, timeout = 200, retry = 3, ptt_type = 0, vfo_comp = Finite 0,
      fd = 0, priv = None\<rparr>"

definition sample_rig :: RIG where
  "sample_rig = \<lparr>caps = Some sample_caps, state = sample_state\<rparr>"

text \<open>The same handle after \<^verbatim>\<open>rig_open\<close> has opened the port on descriptor 3.\<close>

definition sample_rig_opened :: RIG where
  "sample_rig_opened = \<lparr>caps = Some sample_caps, state = sample_state\<lparr>fd := 3\<rparr>\<rparr>"

section \<open>Properties\<close>

lemmas rig_errcode_defs =
  RIG_OK_def RIG_EINVAL_def RIG_ECONF_def RIG_ENOMEM_def RIG_ENIMPL_def RIG_ETIMEOUT_def
  RIG_EIO_def RIG_EINTERNAL_def RIG_EPROTO_def RIG_ERJCTED_def RIG_ETRUNC_def

subsection \<open>The sample inputs\<close>

lemma sample_caps_fields:
  "rig_model sample_caps = 1"
  "rig_init_fn sample_caps = None"
  "rig_open_fn sample_caps = None"
  "rig_close_fn sample_caps = None"
  "rig_cleanup_fn sample_caps = None"
  "rig_probe_fn sample_caps = Some sample_probe"
  "set_freq sample_caps = Some sample_set_freq"
  "get_freq sample_caps = Some sample_get_freq"
  "set_mode sample_caps = Some sample_set_mode"
  "get_mode sample_caps = None"
  "set_vfo sample_caps = None"
  "get_vfo sample_caps = Some sample_get_vfo"
  "has_func sample_caps = 5"
  by (simp_all add: sample_caps_def)

lemma sample_rig_fields:
  "caps sample_rig = Some sample_caps"
  "state sample_rig = sample_state"
  "caps sample_rig_opened = Some sample_caps"
  "state sample_rig_opened = sample_state\<lparr>fd := 3\<rparr>"
  by (simp_all add: sample_rig_def sample_rig_opened_def)

subsection \<open>rigerror\<close>

lemma rigerror_valid_codes:
  "rigerror RIG_OK = Inr ''Command completed sucessfully''"
  "rigerror RIG_EINVAL = Inr ''Invalid parameter''"
  "rigerror RIG_ECONF = Inr ''Invalid configuration''"
  "rigerror RIG_ENOMEM = Inr ''Memory shortage''"
  "rigerror RIG_ENIMPL = Inr ''Feature not implemented''"
  "rigerror RIG_ETIMEOUT = Inr ''Communication timed out''"
  "rigerror RIG_EIO = Inr ''IO error''"
  "rigerror RIG_EINTERNAL = Inr ''Internal Hamlib error''"
  "rigerror RIG_EPROTO = Inr ''Protocol error''"
  "rigerror RIG_ERJCTED = Inr ''Command rejected by the rig''"
  "rigerror RIG_ETRUNC = Inr ''Command performed, but arg truncated, result not guaranteed''"
  by (simp_all add: rigerror_def rigerror_table_def rig_errcode_defs)

lemma rigerror_in_table:
  "0 \<le> n \<Longrightarrow> n \<le> 10 \<Longrightarrow> rigerror n = Inr (rigerror_table ! nat n)"
  by (simp add: rigerror_def rigerror_table_def)

lemma rigerror_outside_table:
  "n < 0 \<or> 10 < n \<Longrightarrow> rigerror n = Inl OutOfBounds"
  by (auto simp add: rigerror_def rigerror_table_def)

lemma rigerror_of_returned_code: "rigerror (- RIG_EINVAL) = Inl OutOfBounds"
  by (simp add: rigerror_def RIG_EINVAL_def)

text \<open>
  Claim C2. \<^verbatim>\<open>rigerror\<close> returns the fixed message of every code of the table, but
  it has no fallback for the other codes: the table has eleven entries, and for the
  code 11 the function reads the twelfth, outside the array. The source says so
  itself (\<^verbatim>\<open>TODO: check table bounds\<close>).
\<close>

theorem rigerror_reads_outside_table: "rigerror 11 = Inl OutOfBounds"
  by (simp add: rigerror_def rigerror_table_def)

subsection \<open>rig_init and the registry\<close>

lemma rig_base_scan_Some:
  "rig_base_scan base m = Some c \<Longrightarrow> c \<in> set base \<and> rig_model c = m"
  by (induction base) (auto split: if_splits)

lemma rig_base_scan_None:
  "(rig_base_scan base m = None) = (m \<notin> rig_model ` set base)"
  by (induction base) auto

lemma rig_base_scan_find:
  "rig_base_scan base m = find (\<lambda>c. rig_model c = m) base"
  by (induction base) auto

lemma rig_init_not_registered:
  "m \<notin> rig_model ` set base \<Longrightarrow> rig_init n base m e = (None, e)"
  by (simp add: rig_init_def rig_base_scan_None [symmetric])

lemma rig_init_no_memory:
  "mem_left e = 0 \<Longrightarrow> rig_init n base m e = (None, e)"
  by (simp add: rig_init_def calloc_rig_def split: option.splits)

lemma rig_init_sample:
  "rig_init 100 [sample_caps] 1 sample_env =
     (Some sample_rig, \<lparr>mem_left = 3, live_rigs = 1, open_fds = []\<rparr>)"
  by (simp add: rig_init_def calloc_rig_def sample_caps_def sample_env_def sample_rig_def
      sample_state_def zeroed_state_def strncpy_def DEFAULT_SERIAL_PORT_def)

text \<open>
  Claim C9. \<^verbatim>\<open>rig_init\<close> has one failure result, \<^verbatim>\<open>NULL\<close>. With no memory left, the
  call for the registered model 1 returns what the call for the unknown model 99
  returns, and leaves the same process state: the caller cannot tell a memory shortage
  from a model that is not registered. The source says so itself (\<^verbatim>\<open>FIXME: how can
  the caller know it's a memory shortage, and not "rig not found" ?\<close>).
\<close>

theorem rig_init_memory_shortage_is_null:
  "rig_init 100 [sample_caps] 1 \<lparr>mem_left = 0, live_rigs = 0, open_fds = []\<rparr> =
     (None, \<lparr>mem_left = 0, live_rigs = 0, open_fds = []\<rparr>) \<and>
   rig_init 100 [sample_caps] 99 \<lparr>mem_left = 0, live_rigs = 0, open_fds = []\<rparr> =
     (None, \<lparr>mem_left = 0, live_rigs = 0, open_fds = []\<rparr>)"
  by (simp add: rig_init_def calloc_rig_def sample_caps_def)

subsection \<open>rig_get_caps\<close>

text \<open>
  Claim C5. For a model identifier of the registry, \<^verbatim>\<open>rig_get_caps\<close> returns
  capabilities of the registry with that identifier; for any other identifier it returns
  \<^verbatim>\<open>NULL\<close>.
\<close>

theorem rig_get_caps_lookup:
  "(m \<in> rig_model ` set base \<longrightarrow>
      (\<exists>c. fst (rig_get_caps base m) = Some c \<and> c \<in> set base \<and> rig_model c = m)) \<and>
   (m \<notin> rig_model ` set base \<longrightarrow> fst (rig_get_caps base m) = None)"
proof (cases "rig_base_scan base m")
  case None
  then have "m \<notin> rig_model ` set base"
    by (rule rig_base_scan_None [THEN iffD1])
  with None show ?thesis
    by (simp add: rig_get_caps_def)
next
  case (Some c)
  then have "c \<in> set base \<and> rig_model c = m"
    by (rule rig_base_scan_Some)
  with Some show ?thesis
    by (auto simp add: rig_get_caps_def)
qed

theorem rig_get_caps_lookup_witness:
  "(1::int) \<in> rig_model ` set [sample_caps] \<and>
   fst (rig_get_caps [sample_caps] 1) = Some sample_caps \<and>
   (99::int) \<notin> rig_model ` set [sample_caps] \<and>
   fst (rig_get_caps [sample_caps] 99) = None"
  using rig_get_caps_lookup [of 1 "[sample_caps]"] rig_get_caps_lookup [of 99 "[sample_caps]"]
  by (simp add: sample_caps_def)

subsection \<open>The wrappers\<close>

text \<open>
  Claim C10. With a null output location, \<^verbatim>\<open>rig_get_freq\<close>, \<^verbatim>\<open>rig_get_mode\<close> and
  \<^verbatim>\<open>rig_get_vfo\<close> return \<open>- RIG_EINVAL\<close> for every handle, and the handle is as it was:
  the backend has not been called.
\<close>

theorem rig_get_null_output:
  "rig_get_freq rig None = (- RIG_EINVAL, rig, None) \<and>
   rig_get_mode rig None = (- RIG_EINVAL, rig, None) \<and>
   rig_get_vfo rig None = (- RIG_EINVAL, rig, None)"
  by (simp add: rig_get_freq_def rig_get_mode_def rig_get_vfo_def split: option.split)

lemma double_literal_nonzero: "double_of_rat (102 / 100) \<noteq> Finite 0"
  by code_simp

lemma double_literal_value:
  "double_of_rat (102 / 100) = Finite (4593671619917906 / 2 ^ 52)"
  by code_simp

lemma compensated_product:
  "freq_of_double (double_mult (double_of_rat (102 / 100)) (double_of_freq 14000000)) =
     Inr 14280000"
  by code_simp

lemma compensated_unit_factor:
  "freq_of_double (double_mult (double_of_rat 1) (double_of_freq 14000000)) = Inr 14000000"
  by code_simp

text \<open>
  Claim C6. For a handle with capabilities that have a \<^verbatim>\<open>set_freq\<close> function \<open>f\<close>:
  with \<^verbatim>\<open>vfo_comp\<close> equal to the \<^verbatim>\<open>double\<close> \<^verbatim>\<open>1.02\<close>, \<^verbatim>\<open>rig_set_freq\<close> for the
  frequency 14000000 is the call of \<open>f\<close> with 14280000; with \<^verbatim>\<open>vfo_comp\<close> equal to
  \<^verbatim>\<open>0.0\<close>, which switches the compensation off, it is the call of \<open>f\<close> with the
  frequency as requested.
\<close>

theorem rig_set_freq_calibration:
  "caps r = Some c \<and> set_freq c = Some f \<longrightarrow>
     (vfo_comp (state r) = double_of_rat (102 / 100) \<longrightarrow>
        rig_set_freq (Some r) 14000000 =
          Inr (case f (state r) 14280000 of (status, st) \<Rightarrow> (status, Some (r\<lparr>state := st\<rparr>)))) \<and>
     (vfo_comp (state r) = Finite 0 \<longrightarrow>
        rig_set_freq (Some r) freq =
          Inr (case f (state r) freq of (status, st) \<Rightarrow> (status, Some (r\<lparr>state := st\<rparr>))))"
  using double_literal_nonzero compensated_product
  by (simp add: rig_set_freq_def compensated_freq_def split: prod.split)

theorem rig_set_freq_calibration_witness:
  "caps (sample_rig\<lparr>state := sample_state\<lparr>vfo_comp := double_of_rat (102 / 100)\<rparr>\<rparr>) =
     Some sample_caps \<and>
   set_freq sample_caps = Some sample_set_freq \<and>
   rig_set_freq (Some (sample_rig\<lparr>state := sample_state\<lparr>vfo_comp := double_of_rat (102 / 100)\<rparr>\<rparr>))
       14000000 =
     Inr (RIG_OK,
      Some (sample_rig\<lparr>state := sample_state
          \<lparr>vfo_comp := double_of_rat (102 / 100), priv := Some 14280000\<rparr>\<rparr>)) \<and>
   caps sample_rig = Some sample_caps \<and>
   vfo_comp (state sample_rig) = Finite 0 \<and>
   rig_set_freq (Some sample_rig) 7050000 =
     Inr (RIG_OK, Some (sample_rig\<lparr>state := sample_state\<lparr>priv := Some 7050000\<rparr>\<rparr>))"
  using
    rig_set_freq_calibration [where r = "sample_rig\<lparr>state := sample_state
        \<lparr>vfo_comp := double_of_rat (102 / 100)\<rparr>\<rparr>" and c = sample_caps and f = sample_set_freq]
    rig_set_freq_calibration [where r = sample_rig and c = sample_caps
      and f = sample_set_freq and freq = 7050000]
  by (simp add: sample_rig_def sample_caps_def sample_set_freq_def sample_state_def)

text \<open>
  The compensation is off for \<^verbatim>\<open>vfo_comp\<close> equal to \<^verbatim>\<open>0.0\<close>. With a factor of 2 the
  frequency \<open>2 ^ 62\<close> is compensated to \<open>2 ^ 63\<close>, which is not a value of \<^verbatim>\<open>freq_t\<close>:
  the cast is undefined, whatever the capabilities hold.
\<close>

lemma compensated_freq_disabled:
  "vfo_comp st = Finite 0 \<Longrightarrow> compensated_freq st freq = Inr freq"
  by (simp add: compensated_freq_def)

lemma compensated_out_of_range:
  "freq_of_double (double_mult (Finite 2) (double_of_freq (2 ^ 62))) = Inl UndefinedConversion"
  by code_simp

lemma rig_set_freq_undefined_conversion:
  "rig_set_freq (Some (sample_rig\<lparr>state := sample_state\<lparr>vfo_comp := Finite 2\<rparr>\<rparr>)) (2 ^ 62) =
     Inl UndefinedConversion"
  using compensated_out_of_range
  by (simp add: rig_set_freq_def compensated_freq_def sample_rig_fields)

lemma rig_set_freq_status:
  "caps r = Some c \<Longrightarrow>
   (case compensated_freq (state r) freq of
      Inl flt \<Rightarrow> rig_set_freq (Some r) freq = Inl flt
    | Inr freq' \<Rightarrow>
        (\<exists>rig'. rig_set_freq (Some r) freq =
           Inr (case set_freq c of None \<Rightarrow> - RIG_ENIMPL | Some f \<Rightarrow> fst (f (state r) freq'),
                rig')))"
  by (simp add: rig_set_freq_def split: sum.split option.split prod.split)

lemma rig_set_freq_invalid_handle:
  "rig = None \<or> (\<exists>r. rig = Some r \<and> caps r = None) \<Longrightarrow>
   rig_set_freq rig freq = Inr (- RIG_EINVAL, rig)"
  by (auto simp add: rig_set_freq_def)

lemma rig_set_mode_status:
  "caps r = Some c \<Longrightarrow>
   fst (rig_set_mode (Some r) mode) =
     (case set_mode c of None \<Rightarrow> - RIG_ENIMPL | Some f \<Rightarrow> fst (f (state r) mode))"
  by (simp add: rig_set_mode_def split: option.split prod.split)

lemma rig_set_vfo_status:
  "caps r = Some c \<Longrightarrow>
   fst (rig_set_vfo (Some r) vfo) =
     (case set_vfo c of None \<Rightarrow> - RIG_ENIMPL | Some f \<Rightarrow> fst (f (state r) vfo))"
  by (simp add: rig_set_vfo_def split: option.split prod.split)

lemma rig_get_freq_status:
  "caps r = Some c \<Longrightarrow>
   fst (rig_get_freq (Some r) (Some v)) =
     (case get_freq c of None \<Rightarrow> - RIG_ENIMPL | Some f \<Rightarrow> fst (f (state r) v))"
  by (simp add: rig_get_freq_def split: option.split prod.split)

lemma rig_get_mode_status:
  "caps r = Some c \<Longrightarrow>
   fst (rig_get_mode (Some r) (Some v)) =
     (case get_mode c of None \<Rightarrow> - RIG_ENIMPL | Some f \<Rightarrow> fst (f (state r) v))"
  by (simp add: rig_get_mode_def split: option.split prod.split)

lemma rig_get_vfo_status:
  "caps r = Some c \<Longrightarrow>
   fst (rig_get_vfo (Some r) (Some v)) =
     (case get_vfo c of None \<Rightarrow> - RIG_ENIMPL | Some f \<Rightarrow> fst (f (state r) v))"
  by (simp add: rig_get_vfo_def split: option.split prod.split)

lemma rig_wrappers_invalid_handle:
  assumes "rig = None \<or> (\<exists>r. rig = Some r \<and> caps r = None)"
  shows "fst (rig_get_freq rig pfreq) = - RIG_EINVAL"
    and "fst (rig_set_mode rig mode) = - RIG_EINVAL"
    and "fst (rig_get_mode rig pmode) = - RIG_EINVAL"
    and "fst (rig_set_vfo rig vfo) = - RIG_EINVAL"
    and "fst (rig_get_vfo rig pvfo) = - RIG_EINVAL"
  using assms
  by (auto simp add: rig_get_freq_def rig_set_mode_def rig_get_mode_def
      rig_set_vfo_def rig_get_vfo_def split: option.split)

lemma rig_getters_null_output:
  "fst (rig_get_freq rig None) = - RIG_EINVAL"
  "fst (rig_get_mode rig None) = - RIG_EINVAL"
  "fst (rig_get_vfo rig None) = - RIG_EINVAL"
  by (simp_all add: rig_get_freq_def rig_get_mode_def rig_get_vfo_def split: option.split)

text \<open>
  Claim C7, as stated, fails for the getters. Their first guard also tests the output
  location: the sample handle has capabilities with a \<^verbatim>\<open>get_freq\<close> function that
  returns \<open>RIG_OK\<close>, and \<^verbatim>\<open>rig_get_freq\<close> with a null output location returns
  \<open>- RIG_EINVAL\<close>, not that result; the sample capabilities have no \<^verbatim>\<open>get_mode\<close>
  function, and \<^verbatim>\<open>rig_get_mode\<close> with a null output location returns \<open>- RIG_EINVAL\<close>,
  not \<open>- RIG_ENIMPL\<close>.
\<close>

theorem rig_wrappers_dispatch_counterexample:
  "caps sample_rig = Some sample_caps \<and>
   get_freq sample_caps = Some sample_get_freq \<and>
   fst (sample_get_freq (state sample_rig) 0) = RIG_OK \<and>
   fst (rig_get_freq (Some sample_rig) None) = - RIG_EINVAL \<and>
   - RIG_EINVAL \<noteq> RIG_OK \<and>
   get_mode sample_caps = None \<and>
   fst (rig_get_mode (Some sample_rig) None) = - RIG_EINVAL \<and>
   - RIG_EINVAL \<noteq> - RIG_ENIMPL"
  by (simp add: sample_rig_fields sample_caps_fields sample_get_freq_def
      rig_getters_null_output RIG_EINVAL_def RIG_OK_def RIG_ENIMPL_def)

text \<open>
  Claim C7, amended. Each of the six wrappers returns \<open>- RIG_EINVAL\<close> for a null
  handle and for a handle without capabilities, and the three getters also for a null
  output location. Otherwise (a handle with capabilities \<open>c\<close>, and for a getter an
  output location) the wrapper returns \<open>- RIG_ENIMPL\<close> when \<open>c\<close> has no function for
  the request, and the result of that function when it has one. \<^verbatim>\<open>rig_set_freq\<close>
  compensates the frequency first, which leaves it as it is when \<^verbatim>\<open>vfo_comp\<close> is
  \<^verbatim>\<open>0.0\<close>: it does the above, with the compensated frequency for \<^verbatim>\<open>set_freq\<close>, when
  that frequency is a value of \<^verbatim>\<open>freq_t\<close>, and its behaviour is undefined when it is
  not.
\<close>

theorem rig_wrappers_dispatch:
  "(rig = None \<or> (\<exists>r. rig = Some r \<and> caps r = None) \<longrightarrow>
      rig_set_freq rig freq = Inr (- RIG_EINVAL, rig) \<and>
      fst (rig_get_freq rig pfreq) = - RIG_EINVAL \<and>
      fst (rig_set_mode rig mode) = - RIG_EINVAL \<and>
      fst (rig_get_mode rig pmode) = - RIG_EINVAL \<and>
      fst (rig_set_vfo rig vfo) = - RIG_EINVAL \<and>
      fst (rig_get_vfo rig pvfo) = - RIG_EINVAL) \<and>
   fst (rig_get_freq rig None) = - RIG_EINVAL \<and>
   fst (rig_get_mode rig None) = - RIG_EINVAL \<and>
   fst (rig_get_vfo rig None) = - RIG_EINVAL \<and>
   (vfo_comp (state r) = Finite 0 \<longrightarrow> compensated_freq (state r) freq = Inr freq) \<and>
   (caps r = Some c \<longrightarrow>
      (case compensated_freq (state r) freq of
         Inl flt \<Rightarrow> rig_set_freq (Some r) freq = Inl flt
       | Inr freq' \<Rightarrow>
           (\<exists>rig'. rig_set_freq (Some r) freq =
              Inr (case set_freq c of None \<Rightarrow> - RIG_ENIMPL
                   | Some f \<Rightarrow> fst (f (state r) freq'),
                   rig'))) \<and>
      fst (rig_get_freq (Some r) (Some vfreq)) =
        (case get_freq c of None \<Rightarrow> - RIG_ENIMPL | Some f \<Rightarrow> fst (f (state r) vfreq)) \<and>
      fst (rig_set_mode (Some r) mode) =
        (case set_mode c of None \<Rightarrow> - RIG_ENIMPL | Some f \<Rightarrow> fst (f (state r) mode)) \<and>
      fst (rig_get_mode (Some r) (Some vmode)) =
        (case get_mode c of None \<Rightarrow> - RIG_ENIMPL | Some f \<Rightarrow> fst (f (state r) vmode)) \<and>
      fst (rig_set_vfo (Some r) vfo) =
        (case set_vfo c of None \<Rightarrow> - RIG_ENIMPL | Some f \<Rightarrow> fst (f (state r) vfo)) \<and>
      fst (rig_get_vfo (Some r) (Some vvfo)) =
        (case get_vfo c of None \<Rightarrow> - RIG_ENIMPL | Some f \<Rightarrow> fst (f (state r) vvfo)))"
proof -
  have invalid: "rig = None \<or> (\<exists>r. rig = Some r \<and> caps r = None) \<longrightarrow>
      rig_set_freq rig freq = Inr (- RIG_EINVAL, rig) \<and>
      fst (rig_get_freq rig pfreq) = - RIG_EINVAL \<and>
      fst (rig_set_mode rig mode) = - RIG_EINVAL \<and>
      fst (rig_get_mode rig pmode) = - RIG_EINVAL \<and>
      fst (rig_set_vfo rig vfo) = - RIG_EINVAL \<and>
      fst (rig_get_vfo rig pvfo) = - RIG_EINVAL"
    using rig_wrappers_invalid_handle [of rig] rig_set_freq_invalid_handle [of rig] by blast
  have off: "vfo_comp (state r) = Finite 0 \<longrightarrow> compensated_freq (state r) freq = Inr freq"
    by (simp add: compensated_freq_disabled)
  have valid: "caps r = Some c \<longrightarrow>
      (case compensated_freq (state r) freq of
         Inl flt \<Rightarrow> rig_set_freq (Some r) freq = Inl flt
       | Inr freq' \<Rightarrow>
           (\<exists>rig'. rig_set_freq (Some r) freq =
              Inr (case set_freq c of None \<Rightarrow> - RIG_ENIMPL
                   | Some f \<Rightarrow> fst (f (state r) freq'),
                   rig'))) \<and>
      fst (rig_get_freq (Some r) (Some vfreq)) =
        (case get_freq c of None \<Rightarrow> - RIG_ENIMPL | Some f \<Rightarrow> fst (f (state r) vfreq)) \<and>
      fst (rig_set_mode (Some r) mode) =
        (case set_mode c of None \<Rightarrow> - RIG_ENIMPL | Some f \<Rightarrow> fst (f (state r) mode)) \<and>
      fst (rig_get_mode (Some r) (Some vmode)) =
        (case get_mode c of None \<Rightarrow> - RIG_ENIMPL | Some f \<Rightarrow> fst (f (state r) vmode)) \<and>
      fst (rig_set_vfo (Some r) vfo) =
        (case set_vfo c of None \<Rightarrow> - RIG_ENIMPL | Some f \<Rightarrow> fst (f (state r) vfo)) \<and>
      fst (rig_get_vfo (Some r) (Some vvfo)) =
        (case get_vfo c of None \<Rightarrow> - RIG_ENIMPL | Some f \<Rightarrow> fst (f (state r) vvfo))"
    by (intro impI conjI rig_set_freq_status rig_set_mode_status rig_set_vfo_status
        rig_get_freq_status rig_get_mode_status rig_get_vfo_status)
  from invalid off valid rig_getters_null_output [of rig] show ?thesis
    by (intro conjI)
qed

theorem rig_wrappers_dispatch_witness:
  "rig_set_freq None 7050000 = Inr (- RIG_EINVAL, None) \<and>
   fst (rig_get_vfo None (Some 0)) = - RIG_EINVAL \<and>
   caps sample_rig = Some sample_caps \<and>
   vfo_comp (state sample_rig) = Finite 0 \<and>
   compensated_freq (state sample_rig) 7050000 = Inr 7050000 \<and>
   (\<exists>rig'. rig_set_freq (Some sample_rig) 7050000 = Inr (RIG_OK, rig')) \<and>
   fst (rig_get_freq (Some sample_rig) (Some 0)) = RIG_OK \<and>
   fst (rig_get_freq (Some sample_rig) None) = - RIG_EINVAL \<and>
   fst (rig_set_mode (Some sample_rig) 1) = - RIG_ERJCTED \<and>
   fst (rig_get_mode (Some sample_rig) (Some 0)) = - RIG_ENIMPL \<and>
   fst (rig_set_vfo (Some sample_rig) 1) = - RIG_ENIMPL \<and>
   fst (rig_get_vfo (Some sample_rig) (Some 0)) = - RIG_EPROTO"
  using
    rig_wrappers_dispatch [where rig = None and freq = 7050000 and pvfo = "Some 0"
      and r = sample_rig and c = sample_caps and mode = 1 and vfo = 1
      and vfreq = 0 and vmode = 0 and vvfo = 0]
    rig_wrappers_dispatch [where rig = "Some sample_rig" and freq = 7050000
      and r = sample_rig and c = sample_caps and mode = 1 and vfo = 1
      and vfreq = 0 and vmode = 0 and vvfo = 0]
  by (simp add: sample_rig_fields sample_caps_fields sample_set_freq_def sample_get_freq_def
      sample_set_mode_def sample_get_vfo_def sample_state_def)

subsection \<open>rig_has_func\<close>

lemma ucast_low_bits:
  fixes h func :: "64 word"
  assumes "take_bit 32 func = func"
  shows "((ucast (h AND func) :: 32 word) = 0) = (h AND func = 0)"
proof
  assume z: "(ucast (h AND func) :: 32 word) = 0"
  show "h AND func = 0"
  proof (rule bit_eqI)
    fix n
    have "bit func n \<Longrightarrow> n < 32"
      using assms by (metis bit_take_bit_iff)
    moreover have "n < 32 \<Longrightarrow> bit (ucast (h AND func) :: 32 word) n = bit (h AND func) n"
      by (simp add: bit_ucast_iff)
    ultimately show "bit (h AND func) n = bit (0 :: 64 word) n"
      using z by (auto simp add: bit_and_iff)
  qed
next
  assume "h AND func = 0"
  then show "(ucast (h AND func) :: 32 word) = 0"
    by simp
qed

lemma flag_low_bits: "k < 32 \<Longrightarrow> take_bit 32 (2 ^ k :: 64 word) = 2 ^ k"
  by (rule bit_eqI) (auto simp add: bit_simps)

text \<open>
  Claim C8, as stated, fails for a flag above bit 31. The function returns an
  \<^verbatim>\<open>int\<close>, and the conversion of the \<^verbatim>\<open>unsigned long\<close> drops the upper half of the
  mask: with bit 32 set in \<^verbatim>\<open>has_func\<close> and asked for, \<^verbatim>\<open>rig_has_func\<close> returns 0.
\<close>

theorem rig_has_func_high_flag_counterexample:
  "caps (sample_rig\<lparr>caps := Some (sample_caps\<lparr>has_func := 2 ^ 32\<rparr>)\<rparr>) =
     Some (sample_caps\<lparr>has_func := 2 ^ 32\<rparr>) \<and>
   has_func (sample_caps\<lparr>has_func := 2 ^ 32\<rparr>) AND 2 ^ 32 \<noteq> 0 \<and>
   rig_has_func (Some (sample_rig\<lparr>caps := Some (sample_caps\<lparr>has_func := 2 ^ 32\<rparr>)\<rparr>)) (2 ^ 32) = 0"
  by (simp add: rig_has_func_def)

text \<open>
  Claim C8, amended. For a handle with capabilities and a \<open>func\<close> within the low 32
  bits, \<^verbatim>\<open>rig_has_func\<close> returns a value other than 0 exactly when the mask
  \<^verbatim>\<open>has_func\<close> has a bit of \<open>func\<close>, and for the flag of a bit \<open>k\<close> below 32 exactly when
  bit \<open>k\<close> of the mask is set; for a null handle and for a handle without capabilities
  it returns \<open>- 1\<close>, which is \<open>- RIG_EINVAL\<close> and not the 0 of an absent feature.
\<close>

theorem rig_has_func_mask:
  "(caps r = Some c \<and> take_bit 32 func = func \<longrightarrow>
      (rig_has_func (Some r) func \<noteq> 0) = (has_func c AND func \<noteq> 0)) \<and>
   (caps r = Some c \<and> k < 32 \<longrightarrow>
      (rig_has_func (Some r) (push_bit k 1) \<noteq> 0) = bit (has_func c) k) \<and>
   (caps r = None \<longrightarrow> rig_has_func (Some r) func = - RIG_EINVAL) \<and>
   rig_has_func None func = - RIG_EINVAL \<and>
   - RIG_EINVAL \<noteq> (0::int)"
  using ucast_low_bits [of func "has_func c"] ucast_low_bits [OF flag_low_bits, of k "has_func c"]
  by (auto simp add: rig_has_func_def RIG_EINVAL_def signed_eq_0_iff and_exp_eq_0_iff_not_bit)

theorem rig_has_func_mask_witness:
  "caps sample_rig = Some sample_caps \<and>
   take_bit 32 (4 :: 64 word) = 4 \<and>
   rig_has_func (Some sample_rig) 4 \<noteq> 0 \<and>
   take_bit 32 (2 :: 64 word) = 2 \<and>
   rig_has_func (Some sample_rig) 2 = 0 \<and>
   bit (has_func sample_caps) 2 \<and>
   caps (sample_rig\<lparr>caps := None\<rparr>) = None \<and>
   rig_has_func (Some (sample_rig\<lparr>caps := None\<rparr>)) 4 = - 1"
  using
    rig_has_func_mask [where r = sample_rig and c = sample_caps and func = 4 and k = 2]
    rig_has_func_mask [where r = sample_rig and c = sample_caps and func = 2 and k = 2]
    rig_has_func_mask [where r = "sample_rig\<lparr>caps := None\<rparr>" and func = 4]
  by (simp add: sample_rig_fields sample_caps_fields RIG_EINVAL_def)

subsection \<open>rig_open\<close>

text \<open>
  Claim C4, as stated, fails. \<^verbatim>\<open>rig_open\<close> keeps no record of a handle being open and
  has no test for it. The handle that \<^verbatim>\<open>rig_init\<close> makes for the sample backend is
  opened (descriptor 3) and opened again at once: the second call asks the transport
  again, which opens descriptor 4, and returns \<open>RIG_OK\<close>, not \<open>- RIG_ECONF\<close>.
\<close>

theorem rig_open_twice_counterexample:
  "rig_init 100 [sample_caps] 1 sample_env =
     (Some sample_rig, \<lparr>mem_left = 3, live_rigs = 1, open_fds = []\<rparr>) \<and>
   rig_open sample_serial_open (Some sample_rig) \<lparr>mem_left = 3, live_rigs = 1, open_fds = []\<rparr> =
     Inr (RIG_OK, Some sample_rig_opened, \<lparr>mem_left = 3, live_rigs = 1, open_fds = [3]\<rparr>) \<and>
   rig_open sample_serial_open (Some sample_rig_opened)
       \<lparr>mem_left = 3, live_rigs = 1, open_fds = [3]\<rparr> =
     Inr (RIG_OK, Some (sample_rig_opened\<lparr>state := sample_state\<lparr>fd := 4\<rparr>\<rparr>),
          \<lparr>mem_left = 3, live_rigs = 1, open_fds = [4, 3]\<rparr>) \<and>
   RIG_OK \<noteq> - RIG_ECONF"
  by (simp add: rig_init_sample rig_open_def sample_serial_open_def sample_rig_def
      sample_rig_opened_def sample_state_def sample_caps_fields RIG_OK_def RIG_ECONF_def)

text \<open>
  Claim C4, amended. \<^verbatim>\<open>rig_open\<close> does not look at whether the handle has been
  opened before. For every handle with capabilities and a serial port, opened or not,
  it calls the transport and returns the status of the transport: its error unchanged,
  or \<open>RIG_OK\<close>. It returns \<open>- RIG_EINVAL\<close> for a null handle and \<open>- RIG_ENIMPL\<close> for a
  port that is not serial.
\<close>

theorem rig_open_status:
  "rig_open serial_open None e = Inr (- RIG_EINVAL, None, e) \<and>
   (port_type (state r) \<noteq> RIG_PORT_SERIAL \<longrightarrow>
      rig_open serial_open (Some r) e = Inr (- RIG_ENIMPL, Some r, e)) \<and>
   (port_type (state r) = RIG_PORT_SERIAL \<and> caps r = Some c \<longrightarrow>
      (\<exists>rig' e'. rig_open serial_open (Some r) e =
         Inr (fst (serial_open (state r) e), rig', e')))"
  by (cases "port_type (state r)")
    (auto simp add: rig_open_def RIG_OK_def split: prod.split option.split)

theorem rig_open_status_witness:
  "port_type (state sample_rig_opened) = RIG_PORT_SERIAL \<and>
   caps sample_rig_opened = Some sample_caps \<and>
   fst (sample_serial_open (state sample_rig_opened)
         \<lparr>mem_left = 3, live_rigs = 1, open_fds = [3]\<rparr>) = RIG_OK \<and>
   (\<exists>rig' e'. rig_open sample_serial_open (Some sample_rig_opened)
         \<lparr>mem_left = 3, live_rigs = 1, open_fds = [3]\<rparr> = Inr (RIG_OK, rig', e')) \<and>
   port_type (state (sample_rig\<lparr>state := sample_state\<lparr>port_type := RIG_PORT_NETWORK\<rparr>\<rparr>)) \<noteq>
     RIG_PORT_SERIAL \<and>
   rig_open sample_serial_open
       (Some (sample_rig\<lparr>state := sample_state\<lparr>port_type := RIG_PORT_NETWORK\<rparr>\<rparr>)) sample_env =
     Inr (- RIG_ENIMPL,
          Some (sample_rig\<lparr>state := sample_state\<lparr>port_type := RIG_PORT_NETWORK\<rparr>\<rparr>), sample_env)"
  using
    rig_open_status [where r = sample_rig_opened and c = sample_caps
      and serial_open = sample_serial_open
      and e = "\<lparr>mem_left = 3, live_rigs = 1, open_fds = [3]\<rparr>"]
    rig_open_status [where r = "sample_rig\<lparr>state := sample_state\<lparr>port_type := RIG_PORT_NETWORK\<rparr>\<rparr>"
      and serial_open = sample_serial_open and e = sample_env]
  by (simp add: sample_rig_fields sample_state_def sample_serial_open_def)

subsection \<open>rig_close, rig_cleanup and rig_probe\<close>

text \<open>
  What the guard \<^verbatim>\<open>rig == NULL || rig->caps\<close> makes of the two functions: a handle
  with capabilities is turned away, with its descriptor still open and its block still
  allocated, and a handle without capabilities is read through its null \<^verbatim>\<open>caps\<close>.
\<close>

lemma rig_close_with_caps:
  "caps r = Some c \<Longrightarrow> rig_close (Some r) e = Inr (- RIG_EINVAL, Some r, e)"
  by (simp add: rig_close_def)

lemma rig_close_without_caps:
  "caps r = None \<Longrightarrow> rig_close (Some r) e = Inl NullDereference"
  by (simp add: rig_close_def)

lemma rig_cleanup_with_caps:
  "caps r = Some c \<Longrightarrow> rig_cleanup (Some r) e = Inr (- RIG_EINVAL, Some r, e)"
  by (simp add: rig_cleanup_def)

lemma rig_cleanup_without_caps:
  "caps r = None \<Longrightarrow> rig_cleanup (Some r) e = Inl NullDereference"
  by (simp add: rig_cleanup_def)

text \<open>
  Claim C1, as stated, fails. The handle that \<^verbatim>\<open>rig_init\<close> makes for the sample
  backend has never been opened, and \<^verbatim>\<open>rig_close\<close> returns \<open>- RIG_EINVAL\<close> for it, not
  \<open>- RIG_ECONF\<close>.
\<close>

theorem rig_close_created_handle_counterexample:
  "rig_init 100 [sample_caps] 1 sample_env =
     (Some sample_rig, \<lparr>mem_left = 3, live_rigs = 1, open_fds = []\<rparr>) \<and>
   rig_close (Some sample_rig) \<lparr>mem_left = 3, live_rigs = 1, open_fds = []\<rparr> =
     Inr (- RIG_EINVAL, Some sample_rig, \<lparr>mem_left = 3, live_rigs = 1, open_fds = []\<rparr>) \<and>
   - RIG_EINVAL \<noteq> - RIG_ECONF"
  by (simp add: rig_init_sample rig_close_def sample_rig_def RIG_EINVAL_def RIG_ECONF_def)

text \<open>
  Claim C1, amended. \<^verbatim>\<open>rig_close\<close> has no test of the life cycle: a handle carries
  no record of having been opened, and no call of \<^verbatim>\<open>rig_close\<close>, on whatever handle,
  returns \<open>- RIG_ECONF\<close>. The absent handle is turned away with \<open>- RIG_EINVAL\<close>, and
  nothing is changed.
\<close>

theorem rig_close_no_state_check:
  "rig_close None e = Inr (- RIG_EINVAL, None, e) \<and>
   rig_close rig e \<noteq> Inr (- RIG_ECONF, rig', e')"
  by (simp add: rig_close_def RIG_EINVAL_def RIG_ECONF_def split: option.split)

text \<open>
  Claim C3. The registry holds the sample backend, whose probe routine fails, and the
  transport opens the port on descriptor 3. \<^verbatim>\<open>rig_probe\<close> returns \<^verbatim>\<open>NULL\<close>, but the
  handle it made is neither closed nor released: \<^verbatim>\<open>rig_close\<close> and \<^verbatim>\<open>rig_cleanup\<close>
  turn it away, because it has capabilities. When \<^verbatim>\<open>rig_probe\<close> returns, one block is
  still allocated and descriptor 3 is still open.
\<close>

theorem rig_probe_leaks_handle:
  "rig_probe 100 [sample_caps] sample_serial_open ''/dev/ttyS1'' sample_env =
     Inr (None, \<lparr>mem_left = 3, live_rigs = 1, open_fds = [3]\<rparr>)"
  by (simp add: rig_probe_def rig_init_sample sample_rig_def sample_state_def
      rig_open_def sample_serial_open_def sample_caps_fields sample_probe_def
      rig_close_def rig_cleanup_def strncpy_def RIG_ETIMEOUT_def RIG_OK_def)

end
